theory Spec2Isabelle
  imports Main "HOL-Library.Char_ord" "HOL-Library.List_Lexorder"
begin

section \<open>Data model\<close>

text \<open>
  A row of the table \<open>performances\<close>, as \<open>Database.public.Tables.performances.Row\<close>
  of \<open>src/integrations/supabase/types.ts\<close> declares it. A column of type
  \<open>string | null\<close> is a \<open>string option\<close>, \<open>None\<close> being SQL \<open>null\<close>.
  Record fields are global names in HOL, so each record prefixes the source's field names
  (\<open>row_\<close> for the table row, \<open>p_\<close> for \<open>Performance\<close>, \<open>c_\<close> and \<open>u_\<close> for the two
  input types, \<open>i_\<close> for the object handed to \<open>insert\<close>).
\<close>

record Row =
  row_id :: string
  row_title :: string
  row_description :: "string option"
  row_cover_image :: "string option"
  row_start_date :: "string option"
  row_end_date :: "string option"
  row_created_at :: string
  row_updated_at :: string
  row_created_by :: string
  row_tagged_users :: "string list option"
  row_drive_folder_id :: "string option"

text \<open>
  The domain object \<open>Performance\<close> that every operation hands to its caller, with the
  fields of the object literals of the service. An optional field is a \<open>string option\<close>,
  \<open>None\<close> being JavaScript's \<open>undefined\<close>.
\<close>

record Performance =
  p_id :: string
  p_title :: string
  p_description :: "string option"
  p_coverImage :: "string option"
  p_startDate :: "string option"
  p_endDate :: "string option"
  p_createdAt :: string
  p_updatedAt :: string
  p_createdBy :: string
  p_taggedUsers :: "string list"
  p_driveFolderId :: "string option"

text \<open>\<open>interface CreatePerformanceData\<close>: an optional field that is left out is \<open>None\<close>.\<close>

record CreatePerformanceData =
  c_title :: string
  c_description :: "string option"
  c_coverImage :: "string option"
  c_startDate :: "string option"
  c_endDate :: "string option"
  c_taggedUsers :: "string list option"
  c_createdBy :: string

text \<open>
  \<open>interface UpdatePerformanceData extends Partial<CreatePerformanceData>\<close>: every field of
  the create input becomes optional (\<open>createdBy\<close> too), and \<open>id\<close> is required.
\<close>

record UpdatePerformanceData =
  u_id :: string
  u_title :: "string option"
  u_description :: "string option"
  u_coverImage :: "string option"
  u_startDate :: "string option"
  u_endDate :: "string option"
  u_taggedUsers :: "string list option"
  u_createdBy :: "string option"

text \<open>
  The object literal that \<open>createPerformance\<close> passes to \<open>insert\<close>. A key whose value is
  \<open>undefined\<close> is not transmitted and the key \<open>drive_folder_id\<close> may be \<open>null\<close>: both are
  \<open>None\<close> here.
\<close>

record InsertPayload =
  i_title :: string
  i_description :: "string option"
  i_cover_image :: "string option"
  i_start_date :: "string option"
  i_end_date :: "string option"
  i_tagged_users :: "string list option"
  i_created_by :: string
  i_drive_folder_id :: "string option"

text \<open>
  \<open>updateData: any = {}\<close> of \<open>updatePerformance\<close> is an object keyed by column names. It is
  an association list in the order the keys are assigned; the values the code assigns are
  strings and string arrays.
\<close>

datatype column =
    Col_id
  | Col_title
  | Col_description
  | Col_cover_image
  | Col_start_date
  | Col_end_date
  | Col_created_at
  | Col_updated_at
  | Col_created_by
  | Col_tagged_users
  | Col_drive_folder_id

datatype jsval = JString string | JArray "string list"

type_synonym patch = "(column \<times> jsval) list"

section \<open>The two collaborators and the effects of an operation\<close>

text \<open>
  An awaited call either rejects (the \<open>await\<close> throws) or resolves to a value. The only
  other exception the service can raise by itself is the \<open>TypeError\<close> of reading a
  property of \<open>null\<close>.
\<close>

datatype exn = Rejected string | TypeError

datatype 'a outcome = Rejects exn | Resolves 'a

text \<open>
  What a store query resolves to: \<open>{ data, error }\<close>. The error is an object, so it is
  truthy exactly when it is not \<open>null\<close>.
\<close>

type_synonym PostgrestError = string

record 'a response =
  data :: "'a option"
  error :: "PostgrestError option"

text \<open>
  The database client \<open>this.supabase\<close> and the object \<open>googleDriveService\<close> are not part
  of the sources of the service; the operations take them as parameters. Each field is the
  answer the collaborator gives to one of the calls the service makes:

  \<^item> \<open>select_all\<close>: \<open>from("performances").select("*").order("created_at", { ascending: false })\<close>
  \<^item> \<open>select_single i\<close>: \<open>from("performances").select("*").eq("id", i).single()\<close>
  \<^item> \<open>insert_single x\<close>: \<open>from("performances").insert(x).select().single()\<close>
  \<^item> \<open>update_single x i\<close>: \<open>from("performances").update(x).eq("id", i).select().single()\<close>
  \<^item> \<open>delete_eq i\<close>: \<open>from("performances").delete().eq("id", i)\<close>
\<close>

record StoreClient =
  select_all :: "Row list response outcome"
  select_single :: "string \<Rightarrow> Row response outcome"
  insert_single :: "InsertPayload \<Rightarrow> Row response outcome"
  update_single :: "patch \<Rightarrow> string \<Rightarrow> Row response outcome"
  delete_eq :: "string \<Rightarrow> unit response outcome"

record FolderService =
  createPerformanceFolder :: "string \<Rightarrow> string option outcome"
  deleteFolder :: "string \<Rightarrow> bool outcome"

text \<open>
  Everything an operation does besides returning: the calls to the two collaborators and
  the console lines, in the order they happen. A console line keeps its message text (with
  the interpolated values of a template literal) and drops the objects printed after it.
\<close>

datatype effect =
    ConsoleLog string
  | ConsoleWarn string
  | ConsoleError string
  | CreatePerformanceFolder string
  | DeleteFolder string
  | SelectAll
  | SelectSingle string
  | InsertSingle InsertPayload
  | UpdateSingle patch string
  | DeleteEq string

text \<open>The calls to the two collaborators among the effects: the console lines are left out.\<close>

fun is_call :: "effect \<Rightarrow> bool" where
  "is_call (ConsoleLog _) = False"
| "is_call (ConsoleWarn _) = False"
| "is_call (ConsoleError _) = False"
| "is_call _ = True"

definition external_calls :: "effect list \<Rightarrow> effect list" where
  "external_calls t = filter is_call t"

text \<open>A store call succeeded when it resolved and reported no error.\<close>

fun succeeded :: "'a response outcome \<Rightarrow> bool" where
  "succeeded (Rejects _) = False"
| "succeeded (Resolves resp) = (error resp = None)"

text \<open>A store call reported an error: it resolved with \<open>error\<close> set.\<close>

fun reported_error :: "'a response outcome \<Rightarrow> bool" where
  "reported_error (Rejects _) = False"
| "reported_error (Resolves resp) = (error resp \<noteq> None)"

section \<open>The service\<close>

subsection \<open>From a row to a \<open>Performance\<close>\<close>

text \<open>
  \<open>x || undefined\<close> on a \<open>string | null\<close>: \<open>null\<close> and the empty string are falsy.
  \<open>x || []\<close> on a \<open>string[] | null\<close>: every array is truthy, the empty one too.
\<close>

definition truthy :: "string option \<Rightarrow> bool" where
  "truthy v = (case v of None \<Rightarrow> False | Some s \<Rightarrow> s \<noteq> [])"

definition or_undefined :: "string option \<Rightarrow> string option" where
  "or_undefined v = (if truthy v then v else None)"

definition or_empty :: "string list option \<Rightarrow> string list" where
  "or_empty v = (case v of None \<Rightarrow> [] | Some us \<Rightarrow> us)"

text \<open>
  The object literal that all four operations build from a row (lines 31-43, 67-79,
  126-138 and 167-179 of the service: the same eleven fields each time).
\<close>

definition toPerformance :: "Row \<Rightarrow> Performance" where
  "toPerformance p =
     \<lparr> p_id = row_id p,
       p_title = row_title p,
       p_description = or_undefined (row_description p),
       p_coverImage = or_undefined (row_cover_image p),
       p_startDate = or_undefined (row_start_date p),
       p_endDate = or_undefined (row_end_date p),
       p_createdAt = row_created_at p,
       p_updatedAt = row_updated_at p,
       p_createdBy = row_created_by p,
       p_taggedUsers = or_empty (row_tagged_users p),
       p_driveFolderId = or_undefined (row_drive_folder_id p) \<rparr>"

subsection \<open>\<open>getPerformances\<close> and \<open>getPerformanceById\<close>\<close>

text \<open>
  Neither has a \<open>try\<close>: a rejected query, and \<open>data.map\<close> on a \<open>null\<close> \<open>data\<close>, throw to
  the caller (\<open>Inl\<close>).
\<close>

definition getPerformances :: "StoreClient \<Rightarrow> (exn + Performance list) \<times> effect list" where
  "getPerformances store =
     (case select_all store of
        Rejects e \<Rightarrow> (Inl e, [SelectAll])
      | Resolves resp \<Rightarrow>
          (case error resp of
             Some err \<Rightarrow> (Inr [], [SelectAll, ConsoleError ''Error fetching performances:''])
           | None \<Rightarrow>
               (case data resp of
                  None \<Rightarrow> (Inl TypeError, [SelectAll])
                | Some rows \<Rightarrow> (Inr (map toPerformance rows), [SelectAll]))))"

definition getPerformanceById ::
  "StoreClient \<Rightarrow> string \<Rightarrow> (exn + Performance option) \<times> effect list" where
  "getPerformanceById store i =
     (let t0 = [ConsoleLog (''Fetching performance with ID: '' @ i), SelectSingle i] in
      case select_single store i of
        Rejects e \<Rightarrow> (Inl e, t0)
      | Resolves resp \<Rightarrow>
          (case error resp of
             Some err \<Rightarrow> (Inr None, t0 @ [ConsoleError ''Error fetching performance:''])
           | None \<Rightarrow>
               (case data resp of
                  None \<Rightarrow> (Inr None, t0 @ [ConsoleError ''No performance found with ID:''])
                | Some row \<Rightarrow>
                    (Inr (Some (toPerformance row)),
                     t0 @ [ConsoleLog ''Performance data retrieved:'']))))"

subsection \<open>\<open>createPerformance\<close>\<close>

text \<open>
  The inner \<open>try\<close> (lines 89-101): the folder id the insert will carry, and the effects.
  \<open>driveFolderId\<close> starts as \<open>null\<close> and is assigned only when the call resolves.
\<close>

definition createFolderStep :: "FolderService \<Rightarrow> string \<Rightarrow> string option \<times> effect list" where
  "createFolderStep drive title =
     (let t0 = [ConsoleLog ''Creating performance folder in Google Drive for:'',
                CreatePerformanceFolder title] in
      case createPerformanceFolder drive title of
        Rejects driveError \<Rightarrow>
          (None, t0 @ [ConsoleError ''Error creating Google Drive folder for performance:''])
      | Resolves driveFolderId \<Rightarrow>
          (driveFolderId,
           t0 @ [case driveFolderId of
                   None \<Rightarrow> ConsoleWarn
                     ''Could not create Google Drive folder for performance. Will continue without folder ID.''
                 | Some f \<Rightarrow>
                     if f \<noteq> [] then
                       ConsoleLog (''Successfully created performance folder with ID: '' @ f)
                     else ConsoleWarn
                       ''Could not create Google Drive folder for performance. Will continue without folder ID.'']))"

definition insert_payload :: "CreatePerformanceData \<Rightarrow> string option \<Rightarrow> InsertPayload" where
  "insert_payload performanceData driveFolderId =
     \<lparr> i_title = c_title performanceData,
       i_description = c_description performanceData,
       i_cover_image = c_coverImage performanceData,
       i_start_date = c_startDate performanceData,
       i_end_date = c_endDate performanceData,
       i_tagged_users = c_taggedUsers performanceData,
       i_created_by = c_createdBy performanceData,
       i_drive_folder_id = driveFolderId \<rparr>"

text \<open>The body of the outer \<open>try\<close> (lines 86-138): \<open>Inl\<close> is an exception leaving it.\<close>

definition createPerformance_try ::
  "FolderService \<Rightarrow> StoreClient \<Rightarrow> CreatePerformanceData \<Rightarrow>
     (exn + Performance option) \<times> effect list" where
  "createPerformance_try drive store performanceData =
     (case createFolderStep drive (c_title performanceData) of
        (driveFolderId, t1) \<Rightarrow>
          (let x = insert_payload performanceData driveFolderId;
               t2 = t1 @ [InsertSingle x] in
           case insert_single store x of
             Rejects e \<Rightarrow> (Inl e, t2)
           | Resolves resp \<Rightarrow>
               (case error resp of
                  Some err \<Rightarrow> (Inr None, t2 @ [ConsoleError ''Error creating performance:''])
                | None \<Rightarrow>
                    (case data resp of
                       None \<Rightarrow>
                         (Inl TypeError, t2 @ [ConsoleLog ''Performance created successfully:''])
                     | Some row \<Rightarrow>
                         (Inr (Some (toPerformance row)),
                          t2 @ [ConsoleLog ''Performance created successfully:''])))))"

text \<open>The whole operation: the first console line, the \<open>try\<close>, and its \<open>catch\<close>.\<close>

definition createPerformance ::
  "FolderService \<Rightarrow> StoreClient \<Rightarrow> CreatePerformanceData \<Rightarrow>
     (exn + Performance option) \<times> effect list" where
  "createPerformance drive store performanceData =
     (case createPerformance_try drive store performanceData of
        (Inl e, t) \<Rightarrow>
          (Inr None,
           ConsoleLog ''Creating performance with data:'' # t @
             [ConsoleError ''Unexpected error during performance creation:''])
      | (Inr r, t) \<Rightarrow> (Inr r, ConsoleLog ''Creating performance with data:'' # t))"

subsection \<open>\<open>updatePerformance\<close>\<close>

text \<open>
  Lines 146-153: a key is assigned when the input field is not \<open>undefined\<close>. There is no
  line for \<open>createdBy\<close>, and none for \<open>id\<close> or \<open>drive_folder_id\<close>.
\<close>

definition updateData :: "UpdatePerformanceData \<Rightarrow> patch" where
  "updateData performanceData =
     (case u_title performanceData of None \<Rightarrow> [] | Some v \<Rightarrow> [(Col_title, JString v)]) @
     (case u_description performanceData of
        None \<Rightarrow> [] | Some v \<Rightarrow> [(Col_description, JString v)]) @
     (case u_coverImage performanceData of
        None \<Rightarrow> [] | Some v \<Rightarrow> [(Col_cover_image, JString v)]) @
     (case u_startDate performanceData of
        None \<Rightarrow> [] | Some v \<Rightarrow> [(Col_start_date, JString v)]) @
     (case u_endDate performanceData of None \<Rightarrow> [] | Some v \<Rightarrow> [(Col_end_date, JString v)]) @
     (case u_taggedUsers performanceData of
        None \<Rightarrow> [] | Some v \<Rightarrow> [(Col_tagged_users, JArray v)])"

text \<open>No \<open>try\<close> here either: a rejected query and a \<open>null\<close> \<open>data\<close> without error throw.\<close>

definition updatePerformance ::
  "StoreClient \<Rightarrow> UpdatePerformanceData \<Rightarrow> (exn + Performance option) \<times> effect list" where
  "updatePerformance store performanceData =
     (let x = updateData performanceData;
          t0 = [UpdateSingle x (u_id performanceData)] in
      case update_single store x (u_id performanceData) of
        Rejects e \<Rightarrow> (Inl e, t0)
      | Resolves resp \<Rightarrow>
          (case error resp of
             Some err \<Rightarrow> (Inr None, t0 @ [ConsoleError ''Error updating performance:''])
           | None \<Rightarrow>
               (case data resp of
                  None \<Rightarrow> (Inl TypeError, t0)
                | Some row \<Rightarrow> (Inr (Some (toPerformance row)), t0))))"

subsection \<open>\<open>deletePerformance\<close>\<close>

text \<open>
  Lines 188-202: the folder is deleted when \<open>performance?.driveFolderId\<close> is truthy, and
  whatever \<open>deleteFolder\<close> does ends in a console line.
\<close>

definition deleteFolderStep ::
  "FolderService \<Rightarrow> string \<Rightarrow> Performance option \<Rightarrow> effect list" where
  "deleteFolderStep drive i performance =
     (case performance of
        None \<Rightarrow> []
      | Some p \<Rightarrow>
          (case p_driveFolderId p of
             None \<Rightarrow> []
           | Some f \<Rightarrow>
               if f = [] then []
               else
                 [ConsoleLog (''Attempting to delete Google Drive folder with ID: '' @ f),
                  DeleteFolder f] @
                 (case deleteFolder drive f of
                    Rejects driveError \<Rightarrow>
                      [ConsoleError
                         (''Error deleting Google Drive folder for performance '' @ i @ '':'')]
                  | Resolves folderDeleted \<Rightarrow>
                      if folderDeleted then
                        [ConsoleLog
                           (''Successfully deleted Google Drive folder for performance: '' @ i)]
                      else
                        [ConsoleWarn
                           (''Failed to delete Google Drive folder for performance: '' @ i)])))"

text \<open>The body of the \<open>try\<close> (lines 184-215).\<close>

definition deletePerformance_try ::
  "FolderService \<Rightarrow> StoreClient \<Rightarrow> string \<Rightarrow> (exn + bool) \<times> effect list" where
  "deletePerformance_try drive store i =
     (case getPerformanceById store i of
        (Inl e, t1) \<Rightarrow> (Inl e, t1)
      | (Inr performance, t1) \<Rightarrow>
          (let t2 = t1 @ deleteFolderStep drive i performance @ [DeleteEq i] in
           case delete_eq store i of
             Rejects e \<Rightarrow> (Inl e, t2)
           | Resolves resp \<Rightarrow>
               (case error resp of
                  Some err \<Rightarrow> (Inr False, t2 @ [ConsoleError ''Error deleting performance:''])
                | None \<Rightarrow> (Inr True, t2))))"

definition deletePerformance ::
  "FolderService \<Rightarrow> StoreClient \<Rightarrow> string \<Rightarrow> (exn + bool) \<times> effect list" where
  "deletePerformance drive store i =
     (case deletePerformance_try drive store i of
        (Inl e, t) \<Rightarrow>
          (Inr False, t @ [ConsoleError ''Unexpected error during performance deletion:''])
      | (Inr b, t) \<Rightarrow> (Inr b, t))"

section \<open>A reference store\<close>

text \<open>
  Modelled from the spec: the Record Store client of section 6 of the specification
  (\<open>select\<close>, \<open>insert\<close>, \<open>update\<close>, \<open>delete\<close> on the table \<open>performances\<close>), which the
  service reaches through \<open>this.supabase\<close> and which is not part of the sources. It is a
  table held in memory that answers each query the service makes the way a relational
  store answers the statement: it never rejects, \<open>.single()\<close> reports an error unless
  exactly one row comes back, an update assigns the columns of the object it is given and
  no other, and a delete whose filter matches no row is not an error. The theorems about
  the service hold for every client; this one supplies concrete inputs.
\<close>

fun set_column :: "column \<Rightarrow> jsval \<Rightarrow> Row \<Rightarrow> Row option" where
  "set_column Col_id (JString s) r = Some (r\<lparr>row_id := s\<rparr>)"
| "set_column Col_title (JString s) r = Some (r\<lparr>row_title := s\<rparr>)"
| "set_column Col_description (JString s) r = Some (r\<lparr>row_description := Some s\<rparr>)"
| "set_column Col_cover_image (JString s) r = Some (r\<lparr>row_cover_image := Some s\<rparr>)"
| "set_column Col_start_date (JString s) r = Some (r\<lparr>row_start_date := Some s\<rparr>)"
| "set_column Col_end_date (JString s) r = Some (r\<lparr>row_end_date := Some s\<rparr>)"
| "set_column Col_created_at (JString s) r = Some (r\<lparr>row_created_at := s\<rparr>)"
| "set_column Col_updated_at (JString s) r = Some (r\<lparr>row_updated_at := s\<rparr>)"
| "set_column Col_created_by (JString s) r = Some (r\<lparr>row_created_by := s\<rparr>)"
| "set_column Col_tagged_users (JArray us) r = Some (r\<lparr>row_tagged_users := Some us\<rparr>)"
| "set_column Col_drive_folder_id (JString s) r = Some (r\<lparr>row_drive_folder_id := Some s\<rparr>)"
| "set_column _ _ r = None"

text \<open>\<open>UPDATE ... SET\<close>: the columns of the object, one after the other; \<open>None\<close> when a value
  has the wrong type for its column.\<close>

fun apply_patch :: "patch \<Rightarrow> Row \<Rightarrow> Row option" where
  "apply_patch [] r = Some r"
| "apply_patch ((c, v) # xs) r =
     (case set_column c v r of None \<Rightarrow> None | Some r' \<Rightarrow> apply_patch xs r')"

text \<open>\<open>INSERT\<close>: the new row holds the columns of the object, a column that is not given is
  \<open>null\<close>, and the store assigns \<open>id\<close>, \<open>created_at\<close> and \<open>updated_at\<close>.\<close>

definition stored_row :: "string \<Rightarrow> string \<Rightarrow> string \<Rightarrow> InsertPayload \<Rightarrow> Row" where
  "stored_row new_id created updated x =
     \<lparr> row_id = new_id,
       row_title = i_title x,
       row_description = i_description x,
       row_cover_image = i_cover_image x,
       row_start_date = i_start_date x,
       row_end_date = i_end_date x,
       row_created_at = created,
       row_updated_at = updated,
       row_created_by = i_created_by x,
       row_tagged_users = i_tagged_users x,
       row_drive_folder_id = i_drive_folder_id x \<rparr>"

definition no_rows :: PostgrestError where
  "no_rows = ''PGRST116''"

definition single :: "Row list \<Rightarrow> Row response outcome" where
  "single rows =
     (case rows of
        [r] \<Rightarrow> Resolves \<lparr> data = Some r, error = None \<rparr>
      | _ \<Rightarrow> Resolves \<lparr> data = None, error = Some no_rows \<rparr>)"

text \<open>The client of a table \<open>tbl\<close> whose next row gets the id \<open>new_id\<close> at the time \<open>now\<close>.\<close>

definition table_client :: "Row list \<Rightarrow> string \<Rightarrow> string \<Rightarrow> StoreClient" where
  "table_client tbl new_id now =
     \<lparr> select_all = Resolves \<lparr> data = Some (rev (sort_key row_created_at tbl)), error = None \<rparr>,
       select_single = (\<lambda>i. single (filter (\<lambda>r. row_id r = i) tbl)),
       insert_single = (\<lambda>x.
         if new_id \<in> set (map row_id tbl)
         then Resolves \<lparr> data = None, error = Some ''23505'' \<rparr>
         else Resolves \<lparr> data = Some (stored_row new_id now now x), error = None \<rparr>),
       update_single = (\<lambda>x i.
         case filter (\<lambda>r. row_id r = i) tbl of
           [r] \<Rightarrow>
             (case apply_patch x r of
                None \<Rightarrow> Resolves \<lparr> data = None, error = Some ''22P02'' \<rparr>
              | Some r' \<Rightarrow> Resolves \<lparr> data = Some r', error = None \<rparr>)
         | _ \<Rightarrow> Resolves \<lparr> data = None, error = Some no_rows \<rparr>),
       delete_eq = (\<lambda>i. Resolves \<lparr> data = None, error = None \<rparr>) \<rparr>"

text \<open>A folder service that creates the folder \<open>f\<close> and deletes every folder it is asked to.\<close>

definition working_drive :: "string \<Rightarrow> FolderService" where
  "working_drive f =
     \<lparr> createPerformanceFolder = (\<lambda>name. Resolves (Some f)),
       deleteFolder = (\<lambda>folderId. Resolves True) \<rparr>"

text \<open>A folder service that is down: every call rejects.\<close>

definition broken_drive :: FolderService where
  "broken_drive =
     \<lparr> createPerformanceFolder = (\<lambda>name. Rejects (Rejected ''network'')),
       deleteFolder = (\<lambda>folderId. Rejects (Rejected ''network'')) \<rparr>"

section \<open>Concrete inputs\<close>

text \<open>The create input of the scenario of the specification: a title and a creator.\<close>

definition winter_concert :: CreatePerformanceData where
  "winter_concert =
     \<lparr> c_title = ''Winter Concert'', c_description = None, c_coverImage = None,
       c_startDate = None, c_endDate = None, c_taggedUsers = None, c_createdBy = ''u1'' \<rparr>"

text \<open>The row that input is stored as, linked to the folder \<open>fld_1\<close>.\<close>

definition winter_row :: Row where
  "winter_row =
     \<lparr> row_id = ''p1'', row_title = ''Winter Concert'', row_description = None,
       row_cover_image = None, row_start_date = None, row_end_date = None,
       row_created_at = ''t0'', row_updated_at = ''t0'', row_created_by = ''u1'',
       row_tagged_users = None, row_drive_folder_id = Some ''fld_1'' \<rparr>"

text \<open>A row whose optional text columns hold the empty string, and what it is shown as.\<close>

definition blank_row :: Row where
  "blank_row =
     \<lparr> row_id = ''p3'', row_title = ''Untitled'', row_description = Some [],
       row_cover_image = Some [], row_start_date = Some [], row_end_date = Some [],
       row_created_at = ''t2'', row_updated_at = ''t2'', row_created_by = ''u1'',
       row_tagged_users = None, row_drive_folder_id = Some [] \<rparr>"

definition blank_performance :: Performance where
  "blank_performance =
     \<lparr> p_id = ''p3'', p_title = ''Untitled'', p_description = None, p_coverImage = None,
       p_startDate = None, p_endDate = None, p_createdAt = ''t2'', p_updatedAt = ''t2'',
       p_createdBy = ''u1'', p_taggedUsers = [], p_driveFolderId = None \<rparr>"

text \<open>An update of the title of \<open>p1\<close> that also carries a \<open>createdBy\<close>.\<close>

definition rename_input :: UpdatePerformanceData where
  "rename_input =
     \<lparr> u_id = ''p1'', u_title = Some ''Spring Gala'', u_description = None, u_coverImage = None,
       u_startDate = None, u_endDate = None, u_taggedUsers = None, u_createdBy = Some ''u2'' \<rparr>"

text \<open>A folder service that answers, and creates and deletes nothing.\<close>

definition refusing_drive :: FolderService where
  "refusing_drive =
     \<lparr> createPerformanceFolder = (\<lambda>name. Resolves None),
       deleteFolder = (\<lambda>folderId. Resolves False) \<rparr>"

text \<open>A store client that cannot reach its database: every query resolves with an error.\<close>

definition failing_client :: StoreClient where
  "failing_client =
     \<lparr> select_all = Resolves \<lparr> data = None, error = Some ''08006'' \<rparr>,
       select_single = (\<lambda>i. Resolves \<lparr> data = None, error = Some ''08006'' \<rparr>),
       insert_single = (\<lambda>x. Resolves \<lparr> data = None, error = Some ''08006'' \<rparr>),
       update_single = (\<lambda>x i. Resolves \<lparr> data = None, error = Some ''08006'' \<rparr>),
       delete_eq = (\<lambda>i. Resolves \<lparr> data = None, error = Some ''08006'' \<rparr>) \<rparr>"

section \<open>Auxiliary facts\<close>

lemmas concrete_defs =
  winter_concert_def winter_row_def refusing_drive_def failing_client_def working_drive_def
  broken_drive_def table_client_def single_def stored_row_def no_rows_def

lemmas service_defs =
  getPerformances_def getPerformanceById_def createPerformance_def createPerformance_try_def
  createFolderStep_def insert_payload_def updatePerformance_def updateData_def
  deletePerformance_def deletePerformance_try_def deleteFolderStep_def toPerformance_def
  or_undefined_def or_empty_def truthy_def Let_def

subsection \<open>Effects\<close>

lemma external_calls_simps [simp]:
  "external_calls [] = []"
  "external_calls (e # t) = (if is_call e then e # external_calls t else external_calls t)"
  "external_calls (t @ t') = external_calls t @ external_calls t'"
  by (simp_all add: external_calls_def)

subsection \<open>The mapping of a row\<close>

lemma or_undefined_Some: "or_undefined v = Some f \<Longrightarrow> f \<noteq> [] \<and> v = Some f"
  by (auto simp add: or_undefined_def truthy_def split: option.splits if_splits)

lemma or_undefined_eq: "or_undefined v = (if v = Some [] then None else v)"
  by (cases v) (simp_all add: or_undefined_def truthy_def)

lemma or_empty_eq: "or_empty v = (case v of None \<Rightarrow> [] | Some us \<Rightarrow> us)"
  by (simp add: or_empty_def)

lemma toPerformance_blank:
  "toPerformance (r\<lparr> row_description := Some [] \<rparr>) = toPerformance (r\<lparr> row_description := None \<rparr>)"
  "toPerformance (r\<lparr> row_cover_image := Some [] \<rparr>) = toPerformance (r\<lparr> row_cover_image := None \<rparr>)"
  "toPerformance (r\<lparr> row_start_date := Some [] \<rparr>) = toPerformance (r\<lparr> row_start_date := None \<rparr>)"
  "toPerformance (r\<lparr> row_end_date := Some [] \<rparr>) = toPerformance (r\<lparr> row_end_date := None \<rparr>)"
  "toPerformance (r\<lparr> row_drive_folder_id := Some [] \<rparr>) =
     toPerformance (r\<lparr> row_drive_folder_id := None \<rparr>)"
  by (simp_all add: toPerformance_def or_undefined_eq)

lemma toPerformance_fields:
  "p_description (toPerformance r) = (if row_description r = Some [] then None else row_description r)"
  "p_coverImage (toPerformance r) = (if row_cover_image r = Some [] then None else row_cover_image r)"
  "p_startDate (toPerformance r) = (if row_start_date r = Some [] then None else row_start_date r)"
  "p_endDate (toPerformance r) = (if row_end_date r = Some [] then None else row_end_date r)"
  "p_driveFolderId (toPerformance r) =
     (if row_drive_folder_id r = Some [] then None else row_drive_folder_id r)"
  "p_taggedUsers (toPerformance r) = (case row_tagged_users r of None \<Rightarrow> [] | Some us \<Rightarrow> us)"
  by (simp_all add: toPerformance_def or_undefined_eq or_empty_eq)

subsection \<open>Reading\<close>

lemma getPerformances_rows:
  "fst (getPerformances store) = Inr ps \<Longrightarrow>
   \<forall>p \<in> set ps. \<exists>resp rows row. select_all store = Resolves resp \<and> data resp = Some rows \<and>
     row \<in> set rows \<and> p = toPerformance row"
  by (auto simp add: getPerformances_def split: outcome.splits option.splits)

lemma external_calls_getPerformanceById:
  "external_calls (snd (getPerformanceById store i)) = [SelectSingle i]"
  by (simp add: getPerformanceById_def Let_def split: outcome.split option.split)

lemma getPerformanceById_Some:
  "fst (getPerformanceById store i) = Inr (Some p) \<Longrightarrow>
   \<exists>resp row. select_single store i = Resolves resp \<and> error resp = None \<and>
     data resp = Some row \<and> p = toPerformance row"
  by (auto simp add: getPerformanceById_def Let_def split: outcome.splits option.splits)

lemma getPerformanceById_row:
  "fst (getPerformanceById store i) = Inr (Some p) \<Longrightarrow>
   \<exists>resp row. select_single store i = Resolves resp \<and> data resp = Some row \<and>
     p = toPerformance row"
  using getPerformanceById_Some [of store i p] by blast

lemma getPerformanceById_None:
  "select_single store i = Resolves resp \<Longrightarrow> error resp \<noteq> None \<or> data resp = None \<Longrightarrow>
   fst (getPerformanceById store i) = Inr None"
  by (auto simp add: getPerformanceById_def Let_def split: outcome.splits option.splits)

subsection \<open>Creating\<close>

lemma external_calls_createFolderStep:
  "external_calls (snd (createFolderStep drive title)) = [CreatePerformanceFolder title]"
  by (simp add: createFolderStep_def Let_def split: outcome.split option.split)

lemma createFolderStep_fst:
  "fst (createFolderStep drive title) =
     (case createPerformanceFolder drive title of Rejects e \<Rightarrow> None | Resolves v \<Rightarrow> v)"
  by (simp add: createFolderStep_def Let_def split: outcome.split)

lemma createFolderStep_failure:
  "createPerformanceFolder drive title = Rejects e \<or>
   createPerformanceFolder drive title = Resolves None \<Longrightarrow>
   fst (createFolderStep drive title) = None"
  by (auto simp add: createFolderStep_fst)

lemma createPerformance_calls:
  "external_calls (snd (createPerformance drive store d)) =
     [CreatePerformanceFolder (c_title d),
      InsertSingle (insert_payload d (fst (createFolderStep drive (c_title d))))]"
  using external_calls_createFolderStep [of drive "c_title d"]
  by (cases "createFolderStep drive (c_title d)")
     (simp add: createPerformance_def createPerformance_try_def Let_def
        split: outcome.split option.split)

lemma createPerformance_result:
  "fst (createPerformance drive store d) =
     (case insert_single store (insert_payload d (fst (createFolderStep drive (c_title d)))) of
        Rejects x \<Rightarrow> Inr None
      | Resolves resp \<Rightarrow>
          (case error resp of
             Some err \<Rightarrow> Inr None
           | None \<Rightarrow>
               (case data resp of
                  None \<Rightarrow> Inr None
                | Some row \<Rightarrow> Inr (Some (toPerformance row)))))"
  by (cases "createFolderStep drive (c_title d)")
     (simp add: createPerformance_def createPerformance_try_def Let_def
        split: outcome.split option.split)

lemma createPerformance_row:
  "fst (createPerformance drive store d) = Inr (Some p) \<Longrightarrow>
   \<exists>x resp row. insert_single store x = Resolves resp \<and> data resp = Some row \<and>
     p = toPerformance row"
  unfolding createPerformance_result
  by (auto split: outcome.splits option.splits)

subsection \<open>Updating\<close>

lemma updateData_keys:
  "set (map fst (updateData d)) \<subseteq>
     {Col_title, Col_description, Col_cover_image, Col_start_date, Col_end_date, Col_tagged_users}"
  by (auto simp add: updateData_def split: option.splits)

lemma map_of_updateData:
  "map_of (updateData d) c =
     (case c of
        Col_title \<Rightarrow> map_option JString (u_title d)
      | Col_description \<Rightarrow> map_option JString (u_description d)
      | Col_cover_image \<Rightarrow> map_option JString (u_coverImage d)
      | Col_start_date \<Rightarrow> map_option JString (u_startDate d)
      | Col_end_date \<Rightarrow> map_option JString (u_endDate d)
      | Col_tagged_users \<Rightarrow> map_option JArray (u_taggedUsers d)
      | _ \<Rightarrow> None)"
  by (cases c) (simp_all add: updateData_def map_add_def split: option.split)

lemma apply_patch_updateData:
  "apply_patch (updateData d) r =
     Some (r\<lparr> row_title := (case u_title d of None \<Rightarrow> row_title r | Some v \<Rightarrow> v),
              row_description :=
                (case u_description d of None \<Rightarrow> row_description r | Some v \<Rightarrow> Some v),
              row_cover_image :=
                (case u_coverImage d of None \<Rightarrow> row_cover_image r | Some v \<Rightarrow> Some v),
              row_start_date :=
                (case u_startDate d of None \<Rightarrow> row_start_date r | Some v \<Rightarrow> Some v),
              row_end_date :=
                (case u_endDate d of None \<Rightarrow> row_end_date r | Some v \<Rightarrow> Some v),
              row_tagged_users :=
                (case u_taggedUsers d of None \<Rightarrow> row_tagged_users r | Some v \<Rightarrow> Some v) \<rparr>)"
  by (cases "u_title d"; cases "u_description d"; cases "u_coverImage d"; cases "u_startDate d";
      cases "u_endDate d"; cases "u_taggedUsers d")
     (simp_all add: updateData_def)

lemma updatePerformance_calls:
  "external_calls (snd (updatePerformance store d)) = [UpdateSingle (updateData d) (u_id d)]"
  by (simp add: updatePerformance_def Let_def split: outcome.split option.split)

lemma updatePerformance_error:
  "reported_error (update_single store (updateData d) (u_id d)) \<Longrightarrow>
   fst (updatePerformance store d) = Inr None"
  by (cases "update_single store (updateData d) (u_id d)")
     (auto simp add: updatePerformance_def Let_def split: option.split)

lemma updatePerformance_row:
  "fst (updatePerformance store u) = Inr (Some p) \<Longrightarrow>
   \<exists>resp row. update_single store (updateData u) (u_id u) = Resolves resp \<and>
     data resp = Some row \<and> p = toPerformance row"
  by (auto simp add: updatePerformance_def Let_def split: outcome.splits option.splits)

lemma filter_no_match: "i \<notin> set (map row_id tbl) \<Longrightarrow> filter (\<lambda>r. row_id r = i) tbl = []"
  by (induction tbl) auto

lemma table_client_update_missing:
  "u_id d \<notin> set (map row_id tbl) \<Longrightarrow>
   fst (updatePerformance (table_client tbl new_id now) d) = Inr None"
  by (rule updatePerformance_error) (simp add: table_client_def filter_no_match)

subsection \<open>Deleting\<close>

lemma external_calls_deleteFolderStep_none:
  "external_calls (deleteFolderStep drive i None) = []"
  by (simp add: deleteFolderStep_def)

lemma external_calls_deleteFolderStep_folder:
  "p_driveFolderId p = Some f \<Longrightarrow> f \<noteq> [] \<Longrightarrow>
   external_calls (deleteFolderStep drive i (Some p)) = [DeleteFolder f]"
  by (simp add: deleteFolderStep_def split: outcome.split)

lemma deletePerformance_result:
  "fst (deletePerformance drive store i) =
     Inr (case select_single store i of
            Rejects e \<Rightarrow> False
          | Resolves resp \<Rightarrow> succeeded (delete_eq store i))"
  by (cases "delete_eq store i")
     (simp_all add: deletePerformance_def deletePerformance_try_def getPerformanceById_def Let_def
        split: outcome.split option.split)

lemma deletePerformance_calls:
  "fst (getPerformanceById store i) = Inr performance \<Longrightarrow>
   external_calls (snd (deletePerformance drive store i)) =
     SelectSingle i # external_calls (deleteFolderStep drive i performance) @ [DeleteEq i]"
  using external_calls_getPerformanceById [of store i]
  by (cases "getPerformanceById store i")
     (simp add: deletePerformance_def deletePerformance_try_def Let_def
        split: outcome.split option.split)

lemma table_client_delete_eq: "succeeded (delete_eq (table_client tbl new_id now) i)"
  by (simp add: table_client_def)

lemma table_client_select_single:
  "\<exists>resp. select_single (table_client tbl new_id now) i = Resolves resp"
  by (simp add: table_client_def single_def split: list.split)

lemma table_client_delete:
  "fst (deletePerformance drive (table_client tbl new_id now) i) = Inr True"
  using table_client_select_single [of tbl new_id now i]
  by (auto simp add: deletePerformance_result table_client_delete_eq)

section \<open>The claims\<close>

subsection \<open>C1: a folder that cannot be created does not stop the creation\<close>

text \<open>
  Claim C1. When \<open>createPerformanceFolder\<close> throws or returns no folder id,
  \<open>createPerformance\<close> still makes the insert, with \<open>drive_folder_id\<close> \<open>null\<close>, as its only
  call to the store; it never throws; and what it returns is decided by the answer of the
  store to that insert alone: the record of the stored row when the insert succeeds,
  \<open>null\<close> otherwise.
\<close>

theorem createPerformance_folder_failure_not_fatal:
  assumes "createPerformanceFolder drive (c_title d) = Rejects e \<or>
           createPerformanceFolder drive (c_title d) = Resolves None"
  shows "external_calls (snd (createPerformance drive store d)) =
           [CreatePerformanceFolder (c_title d), InsertSingle (insert_payload d None)] \<and>
         i_drive_folder_id (insert_payload d None) = None \<and>
         fst (createPerformance drive store d) =
           (case insert_single store (insert_payload d None) of
              Rejects x \<Rightarrow> Inr None
            | Resolves resp \<Rightarrow>
                (case error resp of
                   Some err \<Rightarrow> Inr None
                 | None \<Rightarrow>
                     (case data resp of
                        None \<Rightarrow> Inr None
                      | Some row \<Rightarrow> Inr (Some (toPerformance row)))))"
proof -
  have none: "fst (createFolderStep drive (c_title d)) = None"
    using assms by (rule createFolderStep_failure)
  show ?thesis
    using createPerformance_calls [of drive store d] createPerformance_result [of drive store d]
    by (simp add: none insert_payload_def)
qed

text \<open>
  With the folder service down, and with one that returns \<open>null\<close>, the scenario's input is
  stored in an empty table and comes back as a record without a folder.
\<close>

theorem createPerformance_folder_failure_not_fatal_witness:
  "createPerformanceFolder broken_drive (c_title winter_concert) = Rejects (Rejected ''network'') \<and>
   createPerformanceFolder refusing_drive (c_title winter_concert) = Resolves None \<and>
   external_calls (snd (createPerformance broken_drive (table_client [] ''p1'' ''t0'') winter_concert)) =
     [CreatePerformanceFolder ''Winter Concert'', InsertSingle (insert_payload winter_concert None)] \<and>
   fst (createPerformance broken_drive (table_client [] ''p1'' ''t0'') winter_concert) =
     Inr (Some \<lparr> p_id = ''p1'', p_title = ''Winter Concert'', p_description = None,
                 p_coverImage = None, p_startDate = None, p_endDate = None,
                 p_createdAt = ''t0'', p_updatedAt = ''t0'', p_createdBy = ''u1'',
                 p_taggedUsers = [], p_driveFolderId = None \<rparr>) \<and>
   fst (createPerformance refusing_drive (table_client [] ''p1'' ''t0'') winter_concert) =
     fst (createPerformance broken_drive (table_client [] ''p1'' ''t0'') winter_concert)"
  using createPerformance_folder_failure_not_fatal
          [of broken_drive winter_concert "Rejected ''network''" "table_client [] ''p1'' ''t0''"]
        createPerformance_folder_failure_not_fatal
          [of refusing_drive winter_concert "Rejected ''network''" "table_client [] ''p1'' ''t0''"]
  by (simp add: concrete_defs insert_payload_def toPerformance_def or_undefined_def truthy_def
      or_empty_def)

subsection \<open>C2: the outcome of the folder deletion does not stop the deletion of the row\<close>

text \<open>
  Claim C2. When the record that \<open>deletePerformance\<close> looks up has a \<open>driveFolderId\<close>, then
  for every folder service, whatever its \<open>deleteFolder\<close> does, the calls made are the lookup,
  the deletion of that folder and the deletion of the row, in this order, and the operation
  returns \<open>true\<close> exactly when the deletion of the row succeeded.
\<close>

theorem deletePerformance_folder_outcome_never_blocks:
  assumes "fst (getPerformanceById store i) = Inr (Some p)" and "p_driveFolderId p = Some f"
  shows "external_calls (snd (deletePerformance drive store i)) =
           [SelectSingle i, DeleteFolder f, DeleteEq i] \<and>
         fst (deletePerformance drive store i) = Inr (succeeded (delete_eq store i))"
proof -
  obtain resp row where sel: "select_single store i = Resolves resp"
    and p: "p = toPerformance row"
    using getPerformanceById_Some [OF assms(1)] by blast
  have "f \<noteq> []"
    using assms(2) or_undefined_Some [of "row_drive_folder_id row" f]
    by (simp add: p toPerformance_def)
  then show ?thesis
    using deletePerformance_calls [OF assms(1), of drive]
      external_calls_deleteFolderStep_folder [OF assms(2), of drive i]
      deletePerformance_result [of drive store i]
    by (simp add: sel)
qed

text \<open>
  The three outcomes of \<open>deleteFolder\<close> (\<open>true\<close>, \<open>false\<close>, an exception) on the row linked to
  \<open>fld_1\<close>, and a store that refuses the deletion of the row.
\<close>

theorem deletePerformance_folder_outcome_never_blocks_witness:
  "fst (getPerformanceById (table_client [winter_row] ''p2'' ''t1'') ''p1'') =
     Inr (Some (toPerformance winter_row)) \<and>
   p_driveFolderId (toPerformance winter_row) = Some ''fld_1'' \<and>
   deleteFolder (working_drive ''fld_1'') ''fld_1'' = Resolves True \<and>
   deleteFolder refusing_drive ''fld_1'' = Resolves False \<and>
   deleteFolder broken_drive ''fld_1'' = Rejects (Rejected ''network'') \<and>
   deletePerformance (working_drive ''fld_1'') (table_client [winter_row] ''p2'' ''t1'') ''p1'' =
     (Inr True,
      [ConsoleLog ''Fetching performance with ID: p1'', SelectSingle ''p1'',
       ConsoleLog ''Performance data retrieved:'',
       ConsoleLog ''Attempting to delete Google Drive folder with ID: fld_1'',
       DeleteFolder ''fld_1'',
       ConsoleLog ''Successfully deleted Google Drive folder for performance: p1'',
       DeleteEq ''p1'']) \<and>
   fst (deletePerformance refusing_drive (table_client [winter_row] ''p2'' ''t1'') ''p1'') = Inr True \<and>
   fst (deletePerformance broken_drive (table_client [winter_row] ''p2'' ''t1'') ''p1'') = Inr True \<and>
   external_calls (snd (deletePerformance broken_drive (table_client [winter_row] ''p2'' ''t1'') ''p1'')) =
     [SelectSingle ''p1'', DeleteFolder ''fld_1'', DeleteEq ''p1''] \<and>
   fst (deletePerformance broken_drive
          ((table_client [winter_row] ''p2'' ''t1'')
             \<lparr> delete_eq := (\<lambda>i. Resolves \<lparr> data = None, error = Some ''08006'' \<rparr>) \<rparr>) ''p1'') =
     Inr False"
  using deletePerformance_folder_outcome_never_blocks
          [of "table_client [winter_row] ''p2'' ''t1''" "''p1''" "toPerformance winter_row"
              "''fld_1''" broken_drive]
  by (simp add: concrete_defs service_defs)

subsection \<open>C3: a failed insert returns \<open>null\<close> and leaves the folder\<close>

text \<open>
  Claim C3. When the insert of \<open>createPerformance\<close> fails (it reports an error, or rejects),
  the operation returns \<open>null\<close>, and the calls it made are the creation of the folder and
  the insert, nothing after it: no call deletes the folder that the first step may have
  created. The folder id the insert carries is the one the folder service returned, or
  \<open>null\<close> when it threw.
\<close>

theorem createPerformance_insert_failure_no_rollback:
  assumes "\<not> succeeded (insert_single store (insert_payload d
             (case createPerformanceFolder drive (c_title d) of
                Rejects e \<Rightarrow> None | Resolves v \<Rightarrow> v)))"
  shows "fst (createPerformance drive store d) = Inr None \<and>
         external_calls (snd (createPerformance drive store d)) =
           [CreatePerformanceFolder (c_title d),
            InsertSingle (insert_payload d
              (case createPerformanceFolder drive (c_title d) of
                 Rejects e \<Rightarrow> None | Resolves v \<Rightarrow> v))]"
proof -
  let ?x = "insert_payload d (fst (createFolderStep drive (c_title d)))"
  have "\<not> succeeded (insert_single store ?x)"
    using assms by (simp add: createFolderStep_fst)
  then have "fst (createPerformance drive store d) = Inr None"
    by (cases "insert_single store ?x")
       (auto simp add: createPerformance_result split: option.split)
  then show ?thesis
    using createPerformance_calls [of drive store d] by (simp add: createFolderStep_fst)
qed

text \<open>The folder \<open>fld_1\<close> is created, the store is unreachable: the whole run.\<close>

theorem createPerformance_insert_failure_no_rollback_witness:
  "createPerformanceFolder (working_drive ''fld_1'') (c_title winter_concert) =
     Resolves (Some ''fld_1'') \<and>
   \<not> succeeded (insert_single failing_client (insert_payload winter_concert (Some ''fld_1''))) \<and>
   createPerformance (working_drive ''fld_1'') failing_client winter_concert =
     (Inr None,
      [ConsoleLog ''Creating performance with data:'',
       ConsoleLog ''Creating performance folder in Google Drive for:'',
       CreatePerformanceFolder ''Winter Concert'',
       ConsoleLog ''Successfully created performance folder with ID: fld_1'',
       InsertSingle (insert_payload winter_concert (Some ''fld_1'')),
       ConsoleError ''Error creating performance:''])"
  using createPerformance_insert_failure_no_rollback
          [of failing_client winter_concert "working_drive ''fld_1''"]
  by (simp add: concrete_defs service_defs)

subsection \<open>C4: a lookup that finds nothing skips the folder and still deletes the row\<close>

text \<open>
  Claim C4. When the lookup of \<open>deletePerformance\<close> reports an error or returns no row,
  \<open>getPerformanceById\<close> returns \<open>null\<close>, no call is made to the folder service, and the
  deletion of the row by its id is still made.
\<close>

theorem deletePerformance_lookup_absent_still_deletes:
  assumes "select_single store i = Resolves resp" and "error resp \<noteq> None \<or> data resp = None"
  shows "fst (getPerformanceById store i) = Inr None \<and>
         external_calls (snd (deletePerformance drive store i)) = [SelectSingle i, DeleteEq i]"
  using getPerformanceById_None [OF assms]
    deletePerformance_calls [of store i None drive]
  by (simp add: external_calls_deleteFolderStep_none)

theorem deletePerformance_lookup_absent_still_deletes_witness:
  "select_single (table_client [] ''p1'' ''t0'') ''p2'' =
     Resolves \<lparr> data = None, error = Some ''PGRST116'' \<rparr> \<and>
   deletePerformance (working_drive ''fld_1'') (table_client [] ''p1'' ''t0'') ''p2'' =
     (Inr True,
      [ConsoleLog ''Fetching performance with ID: p2'', SelectSingle ''p2'',
       ConsoleError ''Error fetching performance:'', DeleteEq ''p2''])"
  using deletePerformance_lookup_absent_still_deletes
          [of "table_client [] ''p1'' ''t0''" "''p2''"
              "\<lparr> data = None, error = Some ''PGRST116'' \<rparr>" "working_drive ''fld_1''"]
  by (simp add: concrete_defs service_defs)

subsection \<open>C5: what \<open>deletePerformance\<close> returns\<close>

text \<open>
  Claim C5 says that \<open>deletePerformance\<close> returns \<open>false\<close> for every id that matches no
  record. The operation does not look at what the lookup found when it decides its result:
  on the table that holds only \<open>p1\<close>, the id \<open>p2\<close> matches no record, the deletion of no row
  is not an error, and the operation returns \<open>true\<close>.
\<close>

theorem deletePerformance_missing_id_returns_true:
  "''p2'' \<notin> set (map row_id [winter_row]) \<and>
   deletePerformance (working_drive ''fld_1'') (table_client [winter_row] ''p3'' ''t1'') ''p2'' =
     (Inr True,
      [ConsoleLog ''Fetching performance with ID: p2'', SelectSingle ''p2'',
       ConsoleError ''Error fetching performance:'', DeleteEq ''p2''])"
  by (simp add: concrete_defs service_defs)

text \<open>
  Claim C5, amended. For every id, \<open>deletePerformance\<close> does not throw, and it returns
  \<open>true\<close> exactly when the lookup did not reject and the deletion of the row resolved
  without an error; whether the id matches a record plays no part. On the reference
  store, where a delete that matches no row is not an error, it returns \<open>true\<close> for every
  id.
\<close>

theorem deletePerformance_result_follows_store_delete:
  "fst (deletePerformance drive store i) =
     Inr (case select_single store i of
            Rejects e \<Rightarrow> False
          | Resolves resp \<Rightarrow> succeeded (delete_eq store i)) \<and>
   fst (deletePerformance drive (table_client tbl new_id now) i) = Inr True"
  by (intro conjI, rule deletePerformance_result, rule table_client_delete)

theorem deletePerformance_result_follows_store_delete_witness:
  "fst (deletePerformance broken_drive failing_client ''p2'') = Inr False \<and>
   fst (deletePerformance broken_drive (table_client [] ''p1'' ''t0'') ''p2'') = Inr True"
  using deletePerformance_result_follows_store_delete
          [of broken_drive failing_client "''p2''" "[]" "''p1''" "''t0''"]
  by (simp add: concrete_defs)

subsection \<open>C6: \<open>updatePerformance\<close> is a partial update\<close>

text \<open>
  Claim C6. The object that \<open>updatePerformance\<close> sends to the store has a key exactly for
  each of \<open>title\<close>, \<open>description\<close>, \<open>coverImage\<close>, \<open>startDate\<close>, \<open>endDate\<close>, \<open>taggedUsers\<close>
  that the input gives, with the input's value, and no other key, so never
  \<open>drive_folder_id\<close>; that update of the row \<open>id\<close> is the only call the operation makes.
  Applied to a row, it changes the given fields and leaves every other column as it was.
  The operation returns \<open>null\<close> when the store reports an error, and so when no row has
  the id.
\<close>

theorem updatePerformance_partial_update:
  "map_of (updateData d) c =
     (case c of
        Col_title \<Rightarrow> map_option JString (u_title d)
      | Col_description \<Rightarrow> map_option JString (u_description d)
      | Col_cover_image \<Rightarrow> map_option JString (u_coverImage d)
      | Col_start_date \<Rightarrow> map_option JString (u_startDate d)
      | Col_end_date \<Rightarrow> map_option JString (u_endDate d)
      | Col_tagged_users \<Rightarrow> map_option JArray (u_taggedUsers d)
      | _ \<Rightarrow> None) \<and>
   Col_drive_folder_id \<notin> set (map fst (updateData d)) \<and>
   external_calls (snd (updatePerformance store d)) = [UpdateSingle (updateData d) (u_id d)] \<and>
   apply_patch (updateData d) r =
     Some (r\<lparr> row_title := (case u_title d of None \<Rightarrow> row_title r | Some v \<Rightarrow> v),
              row_description :=
                (case u_description d of None \<Rightarrow> row_description r | Some v \<Rightarrow> Some v),
              row_cover_image :=
                (case u_coverImage d of None \<Rightarrow> row_cover_image r | Some v \<Rightarrow> Some v),
              row_start_date :=
                (case u_startDate d of None \<Rightarrow> row_start_date r | Some v \<Rightarrow> Some v),
              row_end_date :=
                (case u_endDate d of None \<Rightarrow> row_end_date r | Some v \<Rightarrow> Some v),
              row_tagged_users :=
                (case u_taggedUsers d of None \<Rightarrow> row_tagged_users r | Some v \<Rightarrow> Some v) \<rparr>) \<and>
   (reported_error (update_single store (updateData d) (u_id d)) \<longrightarrow>
      fst (updatePerformance store d) = Inr None) \<and>
   (u_id d \<notin> set (map row_id tbl) \<longrightarrow>
      fst (updatePerformance (table_client tbl new_id now) d) = Inr None)"
proof -
  have keys: "Col_drive_folder_id \<notin> set (map fst (updateData d))"
    using updateData_keys [of d] by auto
  show ?thesis
    apply (intro conjI impI)
         apply (rule map_of_updateData)
        apply (rule keys)
       apply (rule updatePerformance_calls)
      apply (rule apply_patch_updateData)
     apply (erule updatePerformance_error)
    apply (erule table_client_update_missing)
    done
qed

text \<open>
  The update of the title of \<open>p1\<close>: the keys of the object, the row after it, the run on
  the table that holds \<open>p1\<close>, on a table that does not, and on an unreachable store.
\<close>

theorem updatePerformance_partial_update_witness:
  "map_of (updateData rename_input) Col_title = Some (JString ''Spring Gala'') \<and>
   map_of (updateData rename_input) Col_description = None \<and>
   map_of (updateData rename_input) Col_drive_folder_id = None \<and>
   apply_patch (updateData rename_input) winter_row =
     Some (winter_row \<lparr> row_title := ''Spring Gala'' \<rparr>) \<and>
   reported_error (update_single failing_client (updateData rename_input) (u_id rename_input)) \<and>
   fst (updatePerformance failing_client rename_input) = Inr None \<and>
   u_id rename_input \<notin> set (map row_id [blank_row]) \<and>
   fst (updatePerformance (table_client [blank_row] ''p4'' ''t3'') rename_input) = Inr None \<and>
   updatePerformance (table_client [winter_row] ''p2'' ''t1'') rename_input =
     (Inr (Some \<lparr> p_id = ''p1'', p_title = ''Spring Gala'', p_description = None,
                   p_coverImage = None, p_startDate = None, p_endDate = None,
                   p_createdAt = ''t0'', p_updatedAt = ''t0'', p_createdBy = ''u1'',
                   p_taggedUsers = [], p_driveFolderId = Some ''fld_1'' \<rparr>),
      [UpdateSingle [(Col_title, JString ''Spring Gala'')] ''p1''])"
proof -
  note c6 = updatePerformance_partial_update
              [of rename_input _ failing_client winter_row "[blank_row]" "''p4''" "''t3''"]
  have e: "reported_error
             (update_single failing_client (updateData rename_input) (u_id rename_input))"
    by (simp add: failing_client_def)
  have m: "u_id rename_input \<notin> set (map row_id [blank_row])"
    by (simp add: rename_input_def blank_row_def)
  have run: "updatePerformance (table_client [winter_row] ''p2'' ''t1'') rename_input =
     (Inr (Some \<lparr> p_id = ''p1'', p_title = ''Spring Gala'', p_description = None,
                   p_coverImage = None, p_startDate = None, p_endDate = None,
                   p_createdAt = ''t0'', p_updatedAt = ''t0'', p_createdBy = ''u1'',
                   p_taggedUsers = [], p_driveFolderId = Some ''fld_1'' \<rparr>),
      [UpdateSingle [(Col_title, JString ''Spring Gala'')] ''p1''])"
    by (simp add: concrete_defs service_defs rename_input_def)
  have k1: "map_of (updateData rename_input) Col_title = Some (JString ''Spring Gala'')"
    using c6 [of Col_title] by (simp add: rename_input_def)
  have k2: "map_of (updateData rename_input) Col_description = None"
    using c6 [of Col_description] by (simp add: rename_input_def)
  have k3: "map_of (updateData rename_input) Col_drive_folder_id = None"
    using c6 [of Col_drive_folder_id] by simp
  have p: "apply_patch (updateData rename_input) winter_row =
     Some (winter_row \<lparr> row_title := ''Spring Gala'' \<rparr>)"
    using c6 [of Col_title] by (simp add: rename_input_def)
  have r: "fst (updatePerformance failing_client rename_input) = Inr None"
    using c6 [of Col_title] e by blast
  have r2: "fst (updatePerformance (table_client [blank_row] ''p4'' ''t3'') rename_input) = Inr None"
    using c6 [of Col_title] m by blast
  from k1 k2 k3 p e r m r2 run show ?thesis
    by (intro conjI)
qed

subsection \<open>C7: the record that \<open>createPerformance\<close> returns\<close>

text \<open>
  Claim C7 says that the editable fields of the returned record equal those of the
  input. An input whose description is the empty string is stored with that description
  and comes back with none.
\<close>

theorem createPerformance_empty_description_absent:
  "insert_single (table_client [] ''p1'' ''t0'')
     (insert_payload (winter_concert \<lparr> c_description := Some [] \<rparr>) (Some ''fld_1'')) =
     Resolves \<lparr> data = Some (stored_row ''p1'' ''t0'' ''t0''
                  (insert_payload (winter_concert \<lparr> c_description := Some [] \<rparr>) (Some ''fld_1''))),
                error = None \<rparr> \<and>
   c_description (winter_concert \<lparr> c_description := Some [] \<rparr>) = Some [] \<and>
   fst (createPerformance (working_drive ''fld_1'') (table_client [] ''p1'' ''t0'')
          (winter_concert \<lparr> c_description := Some [] \<rparr>)) =
     Inr (Some \<lparr> p_id = ''p1'', p_title = ''Winter Concert'', p_description = None,
                 p_coverImage = None, p_startDate = None, p_endDate = None,
                 p_createdAt = ''t0'', p_updatedAt = ''t0'', p_createdBy = ''u1'',
                 p_taggedUsers = [], p_driveFolderId = Some ''fld_1'' \<rparr>)"
  by (simp add: concrete_defs service_defs)

text \<open>
  Claim C7, amended. When the insert succeeds, the store holding the columns it was given
  and assigning \<open>id\<close>, \<open>created_at\<close> and \<open>updated_at\<close>, the returned record has the
  title and the creator of the input; its description, cover image, start date and end
  date are the input's, except that an empty string comes back as absent; its tagged
  users are the input's, the empty list when the input gives none; its folder id is the
  one the folder service returned; and its \<open>id\<close>, \<open>createdAt\<close> and \<open>updatedAt\<close> are the
  values the store assigned.
\<close>

theorem createPerformance_returns_stored_fields:
  assumes "insert_single store (insert_payload d fid) =
             Resolves \<lparr> data = Some (stored_row new_id created updated (insert_payload d fid)),
                        error = None \<rparr>"
    and "fid = (case createPerformanceFolder drive (c_title d) of
                  Rejects e \<Rightarrow> None | Resolves v \<Rightarrow> v)"
  shows "fst (createPerformance drive store d) =
           Inr (Some \<lparr> p_id = new_id,
                       p_title = c_title d,
                       p_description = (if c_description d = Some [] then None else c_description d),
                       p_coverImage = (if c_coverImage d = Some [] then None else c_coverImage d),
                       p_startDate = (if c_startDate d = Some [] then None else c_startDate d),
                       p_endDate = (if c_endDate d = Some [] then None else c_endDate d),
                       p_createdAt = created,
                       p_updatedAt = updated,
                       p_createdBy = c_createdBy d,
                       p_taggedUsers = (case c_taggedUsers d of None \<Rightarrow> [] | Some us \<Rightarrow> us),
                       p_driveFolderId = (if fid = Some [] then None else fid) \<rparr>)"
proof -
  have fid: "fst (createFolderStep drive (c_title d)) = fid"
    by (simp add: createFolderStep_fst assms(2))
  have "fst (createPerformance drive store d) =
          Inr (Some (toPerformance (stored_row new_id created updated (insert_payload d fid))))"
    by (simp add: createPerformance_result fid assms(1))
  then show ?thesis
    by (simp add: toPerformance_def stored_row_def insert_payload_def or_undefined_eq
        or_empty_eq)
qed

text \<open>The scenario of the specification: the folder \<open>fld_1\<close>, no tagged users, no description.\<close>

theorem createPerformance_returns_stored_fields_witness:
  "insert_single (table_client [] ''p1'' ''t0'') (insert_payload winter_concert (Some ''fld_1'')) =
     Resolves \<lparr> data = Some (stored_row ''p1'' ''t0'' ''t0''
                  (insert_payload winter_concert (Some ''fld_1''))),
                error = None \<rparr> \<and>
   fst (createPerformance (working_drive ''fld_1'') (table_client [] ''p1'' ''t0'') winter_concert) =
     Inr (Some \<lparr> p_id = ''p1'', p_title = ''Winter Concert'', p_description = None,
                 p_coverImage = None, p_startDate = None, p_endDate = None,
                 p_createdAt = ''t0'', p_updatedAt = ''t0'', p_createdBy = ''u1'',
                 p_taggedUsers = [], p_driveFolderId = Some ''fld_1'' \<rparr>)"
proof -
  have h1: "insert_single (table_client [] ''p1'' ''t0'')
              (insert_payload winter_concert (Some ''fld_1'')) =
            Resolves \<lparr> data = Some (stored_row ''p1'' ''t0'' ''t0''
                         (insert_payload winter_concert (Some ''fld_1''))),
                       error = None \<rparr>"
    by (simp add: table_client_def)
  have h2: "Some ''fld_1'' =
            (case createPerformanceFolder (working_drive ''fld_1'') (c_title winter_concert) of
               Rejects e \<Rightarrow> None | Resolves v \<Rightarrow> v)"
    by (simp add: working_drive_def)
  show ?thesis
    using createPerformance_returns_stored_fields [OF h1 h2] h1
    by (simp add: winter_concert_def)
qed

subsection \<open>C8: a failed read gives the empty list\<close>

text \<open>
  Claim C8. When the read behind \<open>getPerformances\<close> reports an error, whatever the store
  holds, the operation returns the empty list, it does not throw, and besides the read it
  does nothing but print one line on the error console.
\<close>

theorem getPerformances_read_error_empty:
  "reported_error (select_all store) \<Longrightarrow>
   getPerformances store = (Inr [], [SelectAll, ConsoleError ''Error fetching performances:''])"
  by (cases "select_all store") (auto simp add: getPerformances_def split: option.split)

theorem getPerformances_read_error_empty_witness:
  "reported_error (select_all failing_client) \<and>
   getPerformances failing_client =
     (Inr [], [SelectAll, ConsoleError ''Error fetching performances:''])"
  using getPerformances_read_error_empty [of failing_client] by (simp add: failing_client_def)

subsection \<open>C9: \<open>createdBy\<close> cannot be updated\<close>

text \<open>
  Claim C9. The object that \<open>updatePerformance\<close> sends to the store never has the key
  \<open>created_by\<close>: the \<open>createdBy\<close> of the input, given or not, does not change the object.
  The update with that object is the only call the operation makes, and a row it is
  applied to keeps its \<open>created_by\<close>.
\<close>

theorem updatePerformance_createdBy_unchanged:
  "Col_created_by \<notin> set (map fst (updateData d)) \<and>
   updateData (d\<lparr> u_createdBy := v \<rparr>) = updateData d \<and>
   external_calls (snd (updatePerformance store d)) = [UpdateSingle (updateData d) (u_id d)] \<and>
   (\<exists>r'. apply_patch (updateData d) r = Some r' \<and> row_created_by r' = row_created_by r)"
proof (intro conjI)
  show "Col_created_by \<notin> set (map fst (updateData d))"
    using updateData_keys [of d] by auto
  show "updateData (d\<lparr> u_createdBy := v \<rparr>) = updateData d"
    by (simp add: updateData_def)
  show "external_calls (snd (updatePerformance store d)) = [UpdateSingle (updateData d) (u_id d)]"
    by (rule updatePerformance_calls)
  show "\<exists>r'. apply_patch (updateData d) r = Some r' \<and> row_created_by r' = row_created_by r"
    by (simp add: apply_patch_updateData)
qed

text \<open>An update that asks for the creator \<open>u2\<close>: the row of \<open>u1\<close> stays the row of \<open>u1\<close>.\<close>

theorem updatePerformance_createdBy_unchanged_witness:
  "u_createdBy rename_input = Some ''u2'' \<and>
   row_created_by winter_row = ''u1'' \<and>
   Col_created_by \<notin> set (map fst (updateData rename_input)) \<and>
   apply_patch (updateData rename_input) winter_row =
     Some (winter_row \<lparr> row_title := ''Spring Gala'' \<rparr>) \<and>
   updatePerformance (table_client [winter_row] ''p2'' ''t1'') rename_input =
     (Inr (Some \<lparr> p_id = ''p1'', p_title = ''Spring Gala'', p_description = None,
                   p_coverImage = None, p_startDate = None, p_endDate = None,
                   p_createdAt = ''t0'', p_updatedAt = ''t0'', p_createdBy = ''u1'',
                   p_taggedUsers = [], p_driveFolderId = Some ''fld_1'' \<rparr>),
      [UpdateSingle [(Col_title, JString ''Spring Gala'')] ''p1''])"
proof -
  have k: "Col_created_by \<notin> set (map fst (updateData rename_input))"
    using updatePerformance_createdBy_unchanged [of rename_input "Some ''u2''" failing_client
            winter_row]
    by blast
  from k show ?thesis
    by (simp add: concrete_defs service_defs rename_input_def)
qed

subsection \<open>C10: empty strings and \<open>null\<close> look the same to the caller\<close>

text \<open>
  Claim C10. Every record that \<open>getPerformances\<close>, \<open>getPerformanceById\<close>,
  \<open>createPerformance\<close> or \<open>updatePerformance\<close> returns is \<open>toPerformance\<close> of a row the
  store delivered. In it the description, the cover image, the start date, the end date
  and the folder id are absent when the column holds the empty string as when it holds
  \<open>null\<close>, so that the two rows give the same record, and the tagged users are the empty
  list when the column is \<open>null\<close>.
\<close>

theorem toPerformance_empty_string_absent:
  "(fst (getPerformances store) = Inr ps \<longrightarrow>
      (\<forall>p \<in> set ps. \<exists>resp rows row. select_all store = Resolves resp \<and>
         data resp = Some rows \<and> row \<in> set rows \<and> p = toPerformance row)) \<and>
   (fst (getPerformanceById store i) = Inr (Some p1) \<longrightarrow>
      (\<exists>resp row. select_single store i = Resolves resp \<and> data resp = Some row \<and>
         p1 = toPerformance row)) \<and>
   (fst (createPerformance drive store d) = Inr (Some p2) \<longrightarrow>
      (\<exists>x resp row. insert_single store x = Resolves resp \<and> data resp = Some row \<and>
         p2 = toPerformance row)) \<and>
   (fst (updatePerformance store u) = Inr (Some p3) \<longrightarrow>
      (\<exists>resp row. update_single store (updateData u) (u_id u) = Resolves resp \<and>
         data resp = Some row \<and> p3 = toPerformance row)) \<and>
   p_description (toPerformance r) =
     (if row_description r = Some [] then None else row_description r) \<and>
   p_coverImage (toPerformance r) =
     (if row_cover_image r = Some [] then None else row_cover_image r) \<and>
   p_startDate (toPerformance r) =
     (if row_start_date r = Some [] then None else row_start_date r) \<and>
   p_endDate (toPerformance r) = (if row_end_date r = Some [] then None else row_end_date r) \<and>
   p_driveFolderId (toPerformance r) =
     (if row_drive_folder_id r = Some [] then None else row_drive_folder_id r) \<and>
   p_taggedUsers (toPerformance r) =
     (case row_tagged_users r of None \<Rightarrow> [] | Some us \<Rightarrow> us) \<and>
   toPerformance (r\<lparr> row_description := Some [] \<rparr>) =
     toPerformance (r\<lparr> row_description := None \<rparr>) \<and>
   toPerformance (r\<lparr> row_cover_image := Some [] \<rparr>) =
     toPerformance (r\<lparr> row_cover_image := None \<rparr>) \<and>
   toPerformance (r\<lparr> row_start_date := Some [] \<rparr>) =
     toPerformance (r\<lparr> row_start_date := None \<rparr>) \<and>
   toPerformance (r\<lparr> row_end_date := Some [] \<rparr>) =
     toPerformance (r\<lparr> row_end_date := None \<rparr>) \<and>
   toPerformance (r\<lparr> row_drive_folder_id := Some [] \<rparr>) =
     toPerformance (r\<lparr> row_drive_folder_id := None \<rparr>)"
  apply (intro conjI impI)
                apply (erule getPerformances_rows)
               apply (erule getPerformanceById_row)
              apply (erule createPerformance_row)
             apply (erule updatePerformance_row)
            apply (rule toPerformance_fields toPerformance_blank)+
  done

text \<open>
  The row whose text columns are empty strings, read from its table by the list, by its
  id and after an update: each time the record without description, dates, cover and
  folder, the one the row with a \<open>null\<close> description gives too.
\<close>

theorem toPerformance_empty_string_absent_witness:
  "row_description blank_row = Some [] \<and> row_tagged_users blank_row = None \<and>
   fst (getPerformances (table_client [blank_row] ''p4'' ''t3'')) = Inr [blank_performance] \<and>
   fst (getPerformanceById (table_client [blank_row] ''p4'' ''t3'') ''p3'') =
     Inr (Some blank_performance) \<and>
   (\<exists>resp row. select_single (table_client [blank_row] ''p4'' ''t3'') ''p3'' = Resolves resp \<and>
      data resp = Some row \<and> blank_performance = toPerformance row) \<and>
   fst (updatePerformance (table_client [blank_row] ''p4'' ''t3'')
          (rename_input \<lparr> u_id := ''p3'', u_title := None, u_description := Some [] \<rparr>)) =
     Inr (Some blank_performance) \<and>
   toPerformance blank_row = blank_performance \<and>
   toPerformance (blank_row \<lparr> row_description := None \<rparr>) = blank_performance"
proof -
  note c10 = toPerformance_empty_string_absent
               [of "table_client [blank_row] ''p4'' ''t3''" "[blank_performance]" "''p3''"
                   blank_performance broken_drive winter_concert blank_performance
                   rename_input blank_performance blank_row]
  have t: "toPerformance blank_row = blank_performance"
    by (simp add: blank_row_def blank_performance_def toPerformance_def or_undefined_def
        truthy_def or_empty_def)
  have g: "fst (getPerformances (table_client [blank_row] ''p4'' ''t3'')) =
             Inr [blank_performance]"
    by (simp add: getPerformances_def table_client_def t)
  have b: "fst (getPerformanceById (table_client [blank_row] ''p4'' ''t3'') ''p3'') =
             Inr (Some blank_performance)"
    by (simp add: getPerformanceById_def table_client_def single_def blank_row_def Let_def
        t [unfolded blank_row_def])
  have s: "\<exists>resp row. select_single (table_client [blank_row] ''p4'' ''t3'') ''p3'' =
             Resolves resp \<and> data resp = Some row \<and> blank_performance = toPerformance row"
    using c10 b by blast
  have u: "fst (updatePerformance (table_client [blank_row] ''p4'' ''t3'')
          (rename_input \<lparr> u_id := ''p3'', u_title := None, u_description := Some [] \<rparr>)) =
             Inr (Some blank_performance)"
    by (simp add: concrete_defs service_defs rename_input_def blank_row_def blank_performance_def)
  have n: "toPerformance (blank_row \<lparr> row_description := None \<rparr>) = toPerformance blank_row"
    using c10 by (simp add: blank_row_def)
  from t g b s u n show ?thesis
    by (simp add: blank_row_def)
qed

end
